theory Spec2Isabelle
  imports Complex_Main "HOL-Library.Sublist"
begin

section \<open>Python values, dictionaries and exceptions\<close>

text \<open>
  The engine of \<^verbatim>\<open>src/backend/ml_models.py\<close> receives a customer as a Python
  dictionary (the JSON body of a request, or a row of the customer table). A value of that
  dictionary is a number, a string or \<^verbatim>\<open>None\<close>; a JSON array or object meets the same
  \<^verbatim>\<open>TypeError\<close> as a string wherever the engine uses it, and a JSON boolean is a Python
  number (1 or 0), covered by \<open>Num\<close>. Python's \<^verbatim>\<open>int\<close> and \<^verbatim>\<open>float\<close> are
  modelled by the exact rationals: every threshold of the engine is a short decimal literal, and the
  rounding, the overflow, the infinities and the NaN of binary floating point are outside the model.
\<close>

datatype pyval = Num rat | Str string | NoneVal

text \<open>
  The exceptions the modelled code raises on a dictionary argument: \<^verbatim>\<open>TypeError\<close> for
  arithmetic or an ordering on a value that is not a number, \<^verbatim>\<open>OverflowError\<close> for the
  true division of an \<^verbatim>\<open>int\<close> whose quotient is beyond the range of a float.
\<close>

datatype error = TypeError | OverflowError

type_synonym profile = "string \<rightharpoonup> pyval"

text \<open>\<^verbatim>\<open>customer_data.get(key, default)\<close>\<close>

definition dict_get :: "profile \<Rightarrow> string \<Rightarrow> pyval \<Rightarrow> pyval" where
  "dict_get d k dflt = (case d k of None \<Rightarrow> dflt | Some v \<Rightarrow> v)"

text \<open>
  Every field that the engine reads is next compared with a number or used in arithmetic whose
  result is then compared with a number (\<^verbatim>\<open>tenure < 3\<close>, \<^verbatim>\<open>min(interactions * 2, 50)\<close>,
  \<^verbatim>\<open>revenue / 10\<close>). On a string or on \<^verbatim>\<open>None\<close> that raises \<^verbatim>\<open>TypeError\<close>
  before the function returns (\<^verbatim>\<open>'ab' * 2\<close> is still a string, and the comparison that
  follows raises); on a number it goes on with its value.
\<close>

fun as_number :: "pyval \<Rightarrow> error + rat" where
  "as_number (Num x) = Inr x"
| "as_number (Str s) = Inl TypeError"
| "as_number NoneVal = Inl TypeError"

text \<open>Sequencing: an exception of the first computation is the exception of the whole.\<close>

fun bindE :: "error + 'a \<Rightarrow> ('a \<Rightarrow> error + 'b) \<Rightarrow> error + 'b" where
  "bindE (Inl e) f = Inl e"
| "bindE (Inr x) f = f x"

section \<open>ChurnPredictor\<close>

definition feature_columns :: "string list" where
  "feature_columns =
     [''tenure_months'', ''monthly_revenue'', ''total_interactions'',
      ''support_tickets'', ''last_login_days'', ''feature_usage_score'']"

text \<open>
  \<^verbatim>\<open>_rule_based_churn_prediction\<close> (lines 113-143). \<open>risk_score\<close> starts at 0.0 and
  each \<^verbatim>\<open>if/elif\<close> adds to it in turn; the result is \<^verbatim>\<open>min(risk_score, 1.0)\<close>.
\<close>

definition rule_based_churn_prediction :: "profile \<Rightarrow> error + rat" where
  "rule_based_churn_prediction customer_data =
     bindE (as_number (dict_get customer_data ''tenure_months'' (Num 0))) (\<lambda>tenure.
       let risk_score1 = (if tenure < 3 then 0 + 3 / 10
                          else if tenure < 12 then 0 + 1 / 10 else 0) in
     bindE (as_number (dict_get customer_data ''monthly_revenue'' (Num 0))) (\<lambda>revenue.
       let risk_score2 = (if revenue < 50 then risk_score1 + 2 / 10
                          else if revenue < 100 then risk_score1 + 1 / 10 else risk_score1) in
     bindE (as_number (dict_get customer_data ''total_interactions'' (Num 0))) (\<lambda>interactions.
       let risk_score3 = (if interactions < 5 then risk_score2 + 2 / 10 else risk_score2) in
     bindE (as_number (dict_get customer_data ''last_login_days'' (Num 0))) (\<lambda>last_login.
       let risk_score4 = (if last_login > 30 then risk_score3 + 3 / 10
                          else if last_login > 7 then risk_score3 + 1 / 10 else risk_score3) in
     Inr (min risk_score4 1)))))"

text \<open>
  \<^verbatim>\<open>predict_churn\<close> (lines 98-111). The trained pipeline (\<^verbatim>\<open>prepare_features\<close>,
  the scaler and the classifier's \<^verbatim>\<open>predict_proba\<close>) belongs to scikit-learn and pandas; it
  is a parameter here: \<open>None\<close> when \<^verbatim>\<open>self.model is None\<close>, otherwise a function that
  returns the classifier's probability or raises. An exception inside the \<^verbatim>\<open>try\<close> block,
  whichever branch raised it, is handled by calling the rule-based estimator (again), outside any
  handler.
\<close>

definition predict_churn :: "(profile \<Rightarrow> error + rat) option \<Rightarrow> profile \<Rightarrow> error + rat" where
  "predict_churn model customer_data =
     (case (case model of
              Some trained \<Rightarrow> trained customer_data
            | None \<Rightarrow> rule_based_churn_prediction customer_data) of
        Inr churn_prob \<Rightarrow> Inr churn_prob
      | Inl e \<Rightarrow> rule_based_churn_prediction customer_data)"

text \<open>The tier of \<^verbatim>\<open>src/backend/app.py\<close>, route \<^verbatim>\<open>/api/predict-churn\<close> (line 145).\<close>

definition risk_level :: "rat \<Rightarrow> string" where
  "risk_level churn_prob =
     (if churn_prob > 7 / 10 then ''High'' else if churn_prob > 4 / 10 then ''Medium'' else ''Low'')"

section \<open>HealthScorer\<close>

text \<open>\<^verbatim>\<open>_calculate_engagement_score\<close> (lines 181-199); the login default is 30.\<close>

definition calculate_engagement_score :: "profile \<Rightarrow> error + rat" where
  "calculate_engagement_score customer_data =
     bindE (as_number (dict_get customer_data ''total_interactions'' (Num 0))) (\<lambda>interactions.
       let interaction_score = min (interactions * 2) 50 in
     bindE (as_number (dict_get customer_data ''last_login_days'' (Num 30))) (\<lambda>last_login_days.
       let login_score = (if last_login_days \<le> 1 then 50
                          else if last_login_days \<le> 7 then 40
                          else if last_login_days \<le> 30 then 20
                          else 0) in
     Inr (interaction_score + login_score)))"

text \<open>\<^verbatim>\<open>_calculate_usage_score\<close> (lines 201-204).\<close>

definition calculate_usage_score :: "profile \<Rightarrow> error + rat" where
  "calculate_usage_score customer_data =
     bindE (as_number (dict_get customer_data ''feature_usage_score'' (Num 0))) (\<lambda>feature_usage.
     Inr (min (feature_usage * 20) 100))"

text \<open>\<^verbatim>\<open>_calculate_satisfaction_score\<close> (lines 206-218).\<close>

definition calculate_satisfaction_score :: "profile \<Rightarrow> error + rat" where
  "calculate_satisfaction_score customer_data =
     bindE (as_number (dict_get customer_data ''support_tickets'' (Num 0))) (\<lambda>support_tickets.
     Inr (if support_tickets = 0 then 100
          else if support_tickets \<le> 2 then 80
          else if support_tickets \<le> 5 then 60
          else 40))"

text \<open>
  \<^verbatim>\<open>a / b\<close> (true division). A finite float is below \<open>2 ^ 1024\<close> in magnitude, so a
  number whose quotient reaches the rounding boundary \<open>2 ^ 1024 - 2 ^ 970\<close> is an
  \<^verbatim>\<open>int\<close>, and the division of an \<^verbatim>\<open>int\<close> raises \<^verbatim>\<open>OverflowError\<close>
  (``integer division result too large for a float'') when its quotient rounds beyond the largest
  float.
\<close>

definition true_divide :: "rat \<Rightarrow> rat \<Rightarrow> error + rat" where
  "true_divide a b =
     (if 2 ^ 1024 - 2 ^ 970 \<le> \<bar>a / b\<bar> then Inl OverflowError else Inr (a / b))"

text \<open>
  \<^verbatim>\<open>_calculate_financial_score\<close> (lines 220-231); the tenure default is 1. The revenue
  score of line 226 is computed, and can raise, before the tenure is used in line 229.
\<close>

definition calculate_financial_score :: "profile \<Rightarrow> error + rat" where
  "calculate_financial_score customer_data =
     bindE (as_number (dict_get customer_data ''monthly_revenue'' (Num 0))) (\<lambda>revenue.
     bindE (true_divide revenue 10) (\<lambda>quotient.
       let revenue_score = min quotient 70 in
     bindE (as_number (dict_get customer_data ''tenure_months'' (Num 1))) (\<lambda>tenure.
       let tenure_bonus = min (tenure * 2) 30 in
     Inr (revenue_score + tenure_bonus))))"

text \<open>\<^verbatim>\<open>_calculate_support_score\<close> (lines 233-247).\<close>

definition calculate_support_score :: "profile \<Rightarrow> error + rat" where
  "calculate_support_score customer_data =
     bindE (as_number (dict_get customer_data ''support_tickets'' (Num 0))) (\<lambda>support_tickets.
     Inr (if support_tickets = 0 then 100
          else if support_tickets \<le> 1 then 90
          else if support_tickets \<le> 3 then 70
          else if support_tickets \<le> 5 then 50
          else 30))"

text \<open>
  \<^verbatim>\<open>calculate_health_score\<close> (lines 157-179): the five sub-scores in the order the
  dictionary \<open>scores\<close> receives them, the weighted sum (Python's \<^verbatim>\<open>sum\<close> starts at 0
  and adds from the left), and the clamp \<^verbatim>\<open>min(max(health_score, 0), 100)\<close>.
\<close>

definition calculate_health_score :: "profile \<Rightarrow> error + rat" where
  "calculate_health_score customer_data =
     bindE (calculate_engagement_score customer_data) (\<lambda>engagement.
     bindE (calculate_usage_score customer_data) (\<lambda>usage.
     bindE (calculate_satisfaction_score customer_data) (\<lambda>satisfaction.
     bindE (calculate_financial_score customer_data) (\<lambda>financial.
     bindE (calculate_support_score customer_data) (\<lambda>support.
       let health_score = 0 + engagement * (3 / 10) + usage * (25 / 100)
                            + satisfaction * (2 / 10) + financial * (15 / 100)
                            + support * (1 / 10) in
     Inr (min (max health_score 0) 100))))))"

text \<open>\<^verbatim>\<open>get_health_status\<close> (lines 249-258).\<close>

definition get_health_status :: "rat \<Rightarrow> string" where
  "get_health_status health_score =
     (if health_score \<ge> 90 then ''Excellent''
      else if health_score \<ge> 70 then ''Good''
      else if health_score \<ge> 50 then ''Fair''
      else ''Poor'')"

section \<open>InterventionRecommender\<close>

text \<open>The dictionary \<^verbatim>\<open>self.intervention_strategies\<close> (lines 264-295), in its order.\<close>

definition intervention_strategies :: "(string \<times> string list) list" where
  "intervention_strategies =
     [(''high_churn_low_engagement'',
        [''Schedule personal check-in call'',
         ''Offer product training session'',
         ''Provide dedicated customer success manager'',
         ''Send personalized onboarding materials'']),
      (''high_churn_low_usage'',
        [''Offer feature demo session'',
         ''Provide use case examples'',
         ''Schedule product walkthrough'',
         ''Send tutorial videos'']),
      (''high_churn_support_issues'',
        [''Priority support queue assignment'',
         ''Technical expert consultation'',
         ''Product feedback session'',
         ''Escalate to development team'']),
      (''low_revenue'',
        [''Discuss upgrade opportunities'',
         ''Show ROI calculations'',
         ''Offer limited-time discount'',
         ''Highlight premium features'']),
      (''engagement_drop'',
        [''Send re-engagement email campaign'',
         ''Offer new feature preview'',
         ''Schedule product update call'',
         ''Provide industry insights''])]"

text \<open>
  \<^verbatim>\<open>self.intervention_strategies[key]\<close>. The code only subscripts with the five literal
  keys above, so the \<^verbatim>\<open>KeyError\<close> of a missing key cannot happen; the model gives the
  empty pool there.
\<close>

definition strategies :: "string \<Rightarrow> string list" where
  "strategies key = (case map_of intervention_strategies key of Some pool \<Rightarrow> pool | None \<Rightarrow> [])"

text \<open>
  \<^verbatim>\<open>str.lower()\<close> on the letters A-Z; every other character is kept. (A string is a list
  of bytes here. Python also lowers letters outside ASCII; none of them becomes part of an
  occurrence of one of the eight keywords below.)
\<close>

definition lower_char :: "char \<Rightarrow> char" where
  "lower_char c =
     (case map_of (zip ''ABCDEFGHIJKLMNOPQRSTUVWXYZ'' ''abcdefghijklmnopqrstuvwxyz'') c of
        Some l \<Rightarrow> l
      | None \<Rightarrow> c)"

definition lower :: "string \<Rightarrow> string" where
  "lower s = map lower_char s"

text \<open>Python's \<^verbatim>\<open>sub in s\<close> on strings: \<open>sub\<close> occurs in \<open>s\<close> as a contiguous block.\<close>

fun str_contains :: "string \<Rightarrow> string \<Rightarrow> bool" where
  "str_contains sub [] = (sub = [])"
| "str_contains sub (c # cs) = (prefix sub (c # cs) \<or> str_contains sub cs)"

text \<open>\<^verbatim>\<open>_categorize_recommendation\<close> (lines 361-372).\<close>

definition categorize_recommendation :: "string \<Rightarrow> string" where
  "categorize_recommendation recommendation =
     (if str_contains ''call'' (lower recommendation) \<or> str_contains ''personal'' (lower recommendation)
        then ''Personal Outreach''
      else if str_contains ''training'' (lower recommendation) \<or> str_contains ''demo'' (lower recommendation)
        then ''Product Education''
      else if str_contains ''support'' (lower recommendation) \<or> str_contains ''technical'' (lower recommendation)
        then ''Support Enhancement''
      else if str_contains ''discount'' (lower recommendation) \<or> str_contains ''upgrade'' (lower recommendation)
        then ''Commercial''
      else ''Engagement'')"

text \<open>\<^verbatim>\<open>_get_engagement_level\<close> (lines 348-359); the login default is 30.\<close>

definition get_engagement_level :: "profile \<Rightarrow> error + rat" where
  "get_engagement_level customer_data =
     bindE (as_number (dict_get customer_data ''total_interactions'' (Num 0))) (\<lambda>interactions.
       let engagement_score = interactions * 10 in
     bindE (as_number (dict_get customer_data ''last_login_days'' (Num 30))) (\<lambda>last_login.
     Inr (if last_login \<le> 7 then engagement_score + 20
          else if last_login \<le> 30 then engagement_score + 10
          else engagement_score)))"

text \<open>
  Lines 301-303 of \<^verbatim>\<open>get_recommendations\<close>: \<^verbatim>\<open>churn_risk\<close> is read with default 0 and
  overwritten when the key \<^verbatim>\<open>churn_probability\<close> is in the dictionary.
\<close>

definition selected_churn_risk :: "profile \<Rightarrow> pyval" where
  "selected_churn_risk customer_data =
     (let churn_risk = dict_get customer_data ''churn_risk'' (Num 0) in
      case customer_data ''churn_probability'' of
        Some churn_probability \<Rightarrow> churn_probability
      | None \<Rightarrow> churn_risk)"

text \<open>
  Lines 309-320 of \<^verbatim>\<open>get_recommendations\<close>, the body of the branch
  \<^verbatim>\<open>if churn_risk > 0.7\<close>: what it appends to the empty list \<open>recommendations\<close>.
\<close>

definition high_churn_actions :: "profile \<Rightarrow> error + string list" where
  "high_churn_actions customer_data =
     bindE (get_engagement_level customer_data) (\<lambda>engagement_score.
     bindE (as_number (dict_get customer_data ''feature_usage_score'' (Num 0))) (\<lambda>usage_score.
     bindE (as_number (dict_get customer_data ''support_tickets'' (Num 0))) (\<lambda>support_tickets.
     Inr ((if engagement_score < 50
             then take 2 (strategies ''high_churn_low_engagement'') else [])
          @ (if usage_score < 3
               then take 2 (strategies ''high_churn_low_usage'') else [])
          @ (if support_tickets > 3
               then take 1 (strategies ''high_churn_support_issues'') else [])))))"

text \<open>Lines 324-326, the body of the branch \<^verbatim>\<open>elif churn_risk > 0.4\<close>.\<close>

definition medium_churn_actions :: "profile \<Rightarrow> error + string list" where
  "medium_churn_actions customer_data =
     bindE (as_number (dict_get customer_data ''last_login_days'' (Num 0))) (\<lambda>last_login.
     Inr (if last_login > 14 then take 2 (strategies ''engagement_drop'') else []))"

text \<open>
  Lines 299-331 of \<^verbatim>\<open>get_recommendations\<close>: the list \<open>recommendations\<close> as it stands
  before line 334. (\<^verbatim>\<open>health_score\<close> of line 305 is read and never used.)
\<close>

definition candidate_actions :: "profile \<Rightarrow> error + string list" where
  "candidate_actions customer_data =
     bindE (as_number (selected_churn_risk customer_data)) (\<lambda>churn_risk.
     bindE
       (if churn_risk > 7 / 10 then high_churn_actions customer_data
        else if churn_risk > 4 / 10 then medium_churn_actions customer_data
        else Inr [])
       (\<lambda>recommendations.
     bindE (as_number (dict_get customer_data ''monthly_revenue'' (Num 0))) (\<lambda>revenue.
     Inr (recommendations
          @ (if revenue < 100 then take 1 (strategies ''low_revenue'') else [])))))"

text \<open>
  \<^verbatim>\<open>list(dict.fromkeys(xs))\<close>: the keys of a dictionary filled from \<open>xs\<close>, in
  insertion order, so each string stays at its first occurrence. \<open>seen\<close> holds the keys
  already inserted.
\<close>

fun fromkeys :: "string list \<Rightarrow> string list \<Rightarrow> string list" where
  "fromkeys seen [] = []"
| "fromkeys seen (x # xs) =
     (if x \<in> set seen then fromkeys seen xs else x # fromkeys (seen @ [x]) xs)"

record recommendation =
  action :: string
  priority :: string
  category :: string

text \<open>The loop of lines 337-344 over \<^verbatim>\<open>enumerate(recommendations)\<close>, from index \<open>i\<close>.\<close>

fun prioritize :: "nat \<Rightarrow> string list \<Rightarrow> recommendation list" where
  "prioritize i [] = []"
| "prioritize i (rec # recs) =
     \<lparr>action = rec,
      priority = (if i < 2 then ''High'' else if i < 4 then ''Medium'' else ''Low''),
      category = categorize_recommendation rec\<rparr> # prioritize (Suc i) recs"

text \<open>\<^verbatim>\<open>get_recommendations\<close> (lines 297-346).\<close>

definition get_recommendations :: "profile \<Rightarrow> error + recommendation list" where
  "get_recommendations customer_data =
     bindE (candidate_actions customer_data) (\<lambda>recommendations.
     Inr (prioritize 0 (take 5 (fromkeys [] recommendations))))"

section \<open>Vocabulary of the properties\<close>

subsection \<open>Well-formed inputs\<close>

fun is_number :: "pyval \<Rightarrow> bool" where
  "is_number (Num x) = True"
| "is_number (Str s) = False"
| "is_number NoneVal = False"

fun number_of :: "pyval \<Rightarrow> rat" where
  "number_of (Num x) = x"
| "number_of (Str s) = 0"
| "number_of NoneVal = 0"


text \<open>A field that is absent from the dictionary, or holds a number.\<close>

definition numeric_or_absent :: "profile \<Rightarrow> string \<Rightarrow> bool" where
  "numeric_or_absent p k = (case p k of None \<Rightarrow> True | Some v \<Rightarrow> is_number v)"

text \<open>The number a field stands for when absent fields count as 0.\<close>

definition field_value :: "profile \<Rightarrow> string \<Rightarrow> rat" where
  "field_value p k = number_of (dict_get p k (Num 0))"

text \<open>The four fields the rule-based estimator reads.\<close>

definition rule_based_fields :: "string list" where
  "rule_based_fields =
     [''tenure_months'', ''monthly_revenue'', ''total_interactions'', ''last_login_days'']"

definition rule_based_input :: "profile \<Rightarrow> bool" where
  "rule_based_input p = list_all (numeric_or_absent p) rule_based_fields"




subsection \<open>The increments of the rule-based estimator\<close>

text \<open>One increment per signal, each a function of its own field only.\<close>

definition tenure_increment :: "rat \<Rightarrow> rat" where
  "tenure_increment t = (if t < 3 then 3 / 10 else if 3 \<le> t \<and> t < 12 then 1 / 10 else 0)"

definition revenue_increment :: "rat \<Rightarrow> rat" where
  "revenue_increment r = (if r < 50 then 2 / 10 else if 50 \<le> r \<and> r < 100 then 1 / 10 else 0)"

definition interactions_increment :: "rat \<Rightarrow> rat" where
  "interactions_increment i = (if i < 5 then 2 / 10 else 0)"

definition login_increment :: "rat \<Rightarrow> rat" where
  "login_increment l = (if 30 < l then 3 / 10 else if 7 < l \<and> l \<le> 30 then 1 / 10 else 0)"

definition risk_sum :: "profile \<Rightarrow> rat" where
  "risk_sum p =
     tenure_increment (field_value p ''tenure_months'')
     + revenue_increment (field_value p ''monthly_revenue'')
     + interactions_increment (field_value p ''total_interactions'')
     + login_increment (field_value p ''last_login_days'')"

subsection \<open>The state of the trained artifact\<close>

text \<open>No artifact was loaded, or the trained pipeline raises on this input.\<close>

definition trained_unavailable :: "(profile \<Rightarrow> error + rat) option \<Rightarrow> profile \<Rightarrow> bool" where
  "trained_unavailable model p =
     (case model of None \<Rightarrow> True | Some trained \<Rightarrow> isl (trained p))"


subsection \<open>Recommendations\<close>

text \<open>The fields that \<^verbatim>\<open>get_recommendations\<close> reads besides the churn risk.\<close>

definition recommender_fields :: "string list" where
  "recommender_fields =
     [''total_interactions'', ''last_login_days'', ''feature_usage_score'',
      ''support_tickets'', ''monthly_revenue'']"

text \<open>An input of the recommender: a numeric churn risk, and fields that are numbers or absent.\<close>

definition recommender_input :: "profile \<Rightarrow> bool" where
  "recommender_input p =
     (is_number (selected_churn_risk p) \<and> list_all (numeric_or_absent p) recommender_fields)"

text \<open>Priority by position: indices 0-1 High, 2-3 Medium, 4 Low.\<close>

definition position_priority :: "nat \<Rightarrow> string" where
  "position_priority i =
     (if i \<le> 1 then ''High'' else if i \<le> 3 then ''Medium'' else ''Low'')"

text \<open>The order of the priorities: High above Medium above Low.\<close>

definition priority_rank :: "string \<Rightarrow> nat" where
  "priority_rank s =
     (if s = ''High'' then 3 else if s = ''Medium'' then 2 else if s = ''Low'' then 1 else 0)"

text \<open>
  Every action string a branch of the selection can append: the first two of
  \<open>high_churn_low_engagement\<close> and of \<open>high_churn_low_usage\<close>, the first of
  \<open>high_churn_support_issues\<close>, the first two of \<open>engagement_drop\<close>, the first of
  \<open>low_revenue\<close>.
\<close>

definition appendable_actions :: "string list" where
  "appendable_actions =
     take 2 (strategies ''high_churn_low_engagement'')
     @ take 2 (strategies ''high_churn_low_usage'')
     @ take 1 (strategies ''high_churn_support_issues'')
     @ take 2 (strategies ''engagement_drop'')
     @ take 1 (strategies ''low_revenue'')"

text \<open>
  \<^verbatim>\<open>get_recommendations\<close> with the deduplication of line 334 left out: the candidates
  are truncated to five and prioritized as they are.
\<close>

definition get_recommendations_without_dedup :: "profile \<Rightarrow> error + recommendation list" where
  "get_recommendations_without_dedup customer_data =
     bindE (candidate_actions customer_data) (\<lambda>recommendations.
     Inr (prioritize 0 (take 5 recommendations)))"

text \<open>A new, silent, low-paying customer with open tickets, estimated at 0.9.\<close>

definition at_risk_profile :: profile where
  "at_risk_profile =
     [''tenure_months'' \<mapsto> Num 1, ''monthly_revenue'' \<mapsto> Num 20,
      ''total_interactions'' \<mapsto> Num 2, ''support_tickets'' \<mapsto> Num 6,
      ''last_login_days'' \<mapsto> Num 45, ''feature_usage_score'' \<mapsto> Num 1,
      ''churn_probability'' \<mapsto> Num (9 / 10)]"

definition at_risk_candidates :: "string list" where
  "at_risk_candidates =
     [''Schedule personal check-in call'', ''Offer product training session'',
      ''Offer feature demo session'', ''Provide use case examples'',
      ''Priority support queue assignment'', ''Discuss upgrade opportunities'']"

definition at_risk_recommendations :: "recommendation list" where
  "at_risk_recommendations =
     [\<lparr>action = ''Schedule personal check-in call'', priority = ''High'',
        category = ''Personal Outreach''\<rparr>,
      \<lparr>action = ''Offer product training session'', priority = ''High'',
        category = ''Product Education''\<rparr>,
      \<lparr>action = ''Offer feature demo session'', priority = ''Medium'',
        category = ''Product Education''\<rparr>,
      \<lparr>action = ''Provide use case examples'', priority = ''Medium'',
        category = ''Engagement''\<rparr>,
      \<lparr>action = ''Priority support queue assignment'', priority = ''Low'',
        category = ''Support Enhancement''\<rparr>]"

subsection \<open>Defaults and the selected churn risk\<close>

text \<open>The selected churn risk is a number above 0.7: the branch of line 308 is taken.\<close>

definition high_tier :: "profile \<Rightarrow> bool" where
  "high_tier p =
     (case selected_churn_risk p of Num r \<Rightarrow> r > 7 / 10 | Str s \<Rightarrow> False | NoneVal \<Rightarrow> False)"

text \<open>
  The churn risk as the claim words it: the value of \<open>churn_probability\<close> when that key is
  present, else the value of \<open>churn_risk\<close> when that key is present, else 0.
\<close>

definition risk_used :: "profile \<Rightarrow> pyval" where
  "risk_used p =
     (case p ''churn_probability'' of
        Some v \<Rightarrow> v
      | None \<Rightarrow> (case p ''churn_risk'' of Some v \<Rightarrow> v | None \<Rightarrow> Num 0))"

text \<open>The candidates of a tier branch followed by those of the low-revenue check.\<close>

definition then_low_revenue :: "error + string list \<Rightarrow> profile \<Rightarrow> error + string list" where
  "then_low_revenue tier customer_data =
     bindE tier (\<lambda>recommendations.
     bindE (as_number (dict_get customer_data ''monthly_revenue'' (Num 0))) (\<lambda>revenue.
     Inr (recommendations
          @ (if revenue < 100 then take 1 (strategies ''low_revenue'') else []))))"

text \<open>The candidates when neither tier branch fires: the low-revenue check alone.\<close>

definition low_revenue_actions :: "profile \<Rightarrow> error + string list" where
  "low_revenue_actions customer_data =
     bindE (as_number (dict_get customer_data ''monthly_revenue'' (Num 0))) (\<lambda>revenue.
     Inr (if revenue < 100 then take 1 (strategies ''low_revenue'') else []))"

subsection \<open>Categories by keyword\<close>

text \<open>
  The categorization as the specification words it: an ordered table from keyword sets to
  categories, searched in order; a keyword matches when it occurs in the action string, letter
  case ignored; with no match the category is Engagement.
\<close>

definition keyword_table :: "(string list \<times> string) list" where
  "keyword_table =
     [([''call'', ''personal''], ''Personal Outreach''),
      ([''training'', ''demo''], ''Product Education''),
      ([''support'', ''technical''], ''Support Enhancement''),
      ([''discount'', ''upgrade''], ''Commercial'')]"

definition category_values :: "string list" where
  "category_values =
     [''Personal Outreach'', ''Product Education'', ''Support Enhancement'', ''Commercial'',
      ''Engagement'']"

definition occurs_ignoring_case :: "string \<Rightarrow> string \<Rightarrow> bool" where
  "occurs_ignoring_case keyword s =
     (\<exists>before w after. s = before @ w @ after \<and> lower w = lower keyword)"

fun first_match :: "(string list \<times> string) list \<Rightarrow> string \<Rightarrow> string" where
  "first_match [] s = ''Engagement''"
| "first_match ((keywords, cat) # table) s =
     (if \<exists>keyword \<in> set keywords. occurs_ignoring_case keyword s then cat
      else first_match table s)"

subsection \<open>Profiles of the test suite and of the examples\<close>

text \<open>\<^verbatim>\<open>test_churn_prediction_high_risk\<close> of \<^verbatim>\<open>src/tests/test_system.py\<close>.\<close>

definition high_risk_test_profile :: profile where
  "high_risk_test_profile =
     [''tenure_months'' \<mapsto> Num 3, ''monthly_revenue'' \<mapsto> Num 45,
      ''total_interactions'' \<mapsto> Num 8, ''support_tickets'' \<mapsto> Num 6,
      ''last_login_days'' \<mapsto> Num 21, ''feature_usage_score'' \<mapsto> Num (12 / 10)]"

text \<open>\<^verbatim>\<open>test_intervention_recommendations\<close>.\<close>

definition recommendations_test_profile :: profile where
  "recommendations_test_profile =
     [''tenure_months'' \<mapsto> Num 6, ''monthly_revenue'' \<mapsto> Num 75,
      ''total_interactions'' \<mapsto> Num 15, ''support_tickets'' \<mapsto> Num 4,
      ''last_login_days'' \<mapsto> Num 14, ''feature_usage_score'' \<mapsto> Num (21 / 10),
      ''churn_probability'' \<mapsto> Num (65 / 100)]"

text \<open>\<^verbatim>\<open>test_ml_models_directly\<close>.\<close>

definition direct_test_profile :: profile where
  "direct_test_profile =
     [''tenure_months'' \<mapsto> Num 8, ''monthly_revenue'' \<mapsto> Num 120,
      ''total_interactions'' \<mapsto> Num 25, ''support_tickets'' \<mapsto> Num 3,
      ''last_login_days'' \<mapsto> Num 5, ''feature_usage_score'' \<mapsto> Num (32 / 10)]"

text \<open>A request body whose tenure is a string.\<close>

definition malformed_profile :: profile where
  "malformed_profile = [''tenure_months'' \<mapsto> Str ''abc'', ''monthly_revenue'' \<mapsto> Num 45]"



text \<open>An artifact that loads and whose pipeline raises on every input.\<close>

definition corrupt_model :: "(profile \<Rightarrow> error + rat) option" where
  "corrupt_model = Some (\<lambda>customer_data. Inl TypeError)"

text \<open>
  A customer with one interaction, a last login three weeks ago and a revenue of 75; the same
  customer with a stored \<^verbatim>\<open>churn_risk\<close> of 0.95; and with a
  \<^verbatim>\<open>churn_probability\<close> of 0.65 besides.
\<close>

definition lapsed_profile :: profile where
  "lapsed_profile =
     [''total_interactions'' \<mapsto> Num 1, ''last_login_days'' \<mapsto> Num 21,
      ''monthly_revenue'' \<mapsto> Num 75]"

definition stored_risk_profile :: profile where
  "stored_risk_profile = lapsed_profile(''churn_risk'' \<mapsto> Num (95 / 100))"

definition conflicting_risk_profile :: profile where
  "conflicting_risk_profile = stored_risk_profile(''churn_probability'' \<mapsto> Num (65 / 100))"

section \<open>Basic facts\<close>

lemma as_number_eq_Inl: "as_number v = Inl e \<longleftrightarrow> e = TypeError \<and> \<not> is_number v"
  by (cases v) auto

lemma bindE_case: "bindE m f = (case m of Inl e \<Rightarrow> Inl e | Inr x \<Rightarrow> f x)"
  by (cases m) simp_all

lemma numeric_dict_get:
  "numeric_or_absent p k \<Longrightarrow> dict_get p k (Num d) = Num (number_of (dict_get p k (Num d)))"
  by (cases "p k"; cases "the (p k)") (simp_all add: numeric_or_absent_def dict_get_def)

lemma non_numeric_dict_get:
  "\<not> numeric_or_absent p k \<Longrightarrow> as_number (dict_get p k d) = Inl TypeError"
  by (cases "p k"; cases "the (p k)") (simp_all add: numeric_or_absent_def dict_get_def)

section \<open>The rule-based estimator\<close>

lemma rule_based_of_numbers:
  assumes "dict_get p ''tenure_months'' (Num 0) = Num t"
    and "dict_get p ''monthly_revenue'' (Num 0) = Num r"
    and "dict_get p ''total_interactions'' (Num 0) = Num i"
    and "dict_get p ''last_login_days'' (Num 0) = Num l"
  shows "rule_based_churn_prediction p =
     Inr (min (tenure_increment t + revenue_increment r + interactions_increment i
               + login_increment l) 1)"
  using assms
  by (simp add: rule_based_churn_prediction_def tenure_increment_def revenue_increment_def
      interactions_increment_def login_increment_def)

lemma rule_based_numeric:
  assumes "rule_based_input p"
  shows "rule_based_churn_prediction p = Inr (min (risk_sum p) 1)"
proof -
  from assms have n: "numeric_or_absent p ''tenure_months''"
    "numeric_or_absent p ''monthly_revenue''"
    "numeric_or_absent p ''total_interactions''" "numeric_or_absent p ''last_login_days''"
    by (simp_all add: rule_based_input_def rule_based_fields_def)
  show ?thesis
    unfolding field_value_def risk_sum_def
    by (rule rule_based_of_numbers) (rule numeric_dict_get, rule n)+
qed

lemma rule_based_raises:
  assumes "\<not> rule_based_input p"
  shows "rule_based_churn_prediction p = Inl TypeError"
proof -
  from assms consider "\<not> numeric_or_absent p ''tenure_months''"
    | "\<not> numeric_or_absent p ''monthly_revenue''"
    | "\<not> numeric_or_absent p ''total_interactions''"
    | "\<not> numeric_or_absent p ''last_login_days''"
    by (auto simp add: rule_based_input_def rule_based_fields_def)
  then show ?thesis
    by cases (simp_all add: rule_based_churn_prediction_def non_numeric_dict_get bindE_case
        as_number_eq_Inl split: sum.splits)
qed

lemma increments_nonneg:
  "0 \<le> tenure_increment t" "0 \<le> revenue_increment r"
  "0 \<le> interactions_increment i" "0 \<le> login_increment l"
  by (simp_all add: tenure_increment_def revenue_increment_def interactions_increment_def
      login_increment_def)

lemma risk_sum_nonneg: "0 \<le> risk_sum p"
  unfolding risk_sum_def by (intro add_nonneg_nonneg increments_nonneg)

lemma rule_based_range:
  assumes "rule_based_input p"
  shows "\<exists>r. rule_based_churn_prediction p = Inr r \<and> 0 \<le> r \<and> r \<le> 1"
  by (simp add: rule_based_numeric [OF assms] risk_sum_nonneg)

section \<open>The health score\<close>

lemma numeric_dict_get_ex:
  "numeric_or_absent p k \<Longrightarrow> \<exists>x. dict_get p k (Num d) = Num x"
  using numeric_dict_get by blast






section \<open>Risk estimation and its fallback\<close>

lemma predict_churn_unavailable:
  assumes "trained_unavailable model p"
  shows "predict_churn model p = rule_based_churn_prediction p"
  using assms
  by (cases model; cases "rule_based_churn_prediction p")
    (auto simp add: predict_churn_def trained_unavailable_def split: sum.splits)

lemma predict_churn_trained:
  assumes "model = Some trained" and "trained p = Inr r"
  shows "predict_churn model p = Inr r"
  using assms by (simp add: predict_churn_def)

lemma predict_churn_returns:
  assumes "rule_based_input p"
  shows "\<exists>r. predict_churn model p = Inr r"
proof (cases "trained_unavailable model p")
  case True
  with rule_based_range [OF assms] show ?thesis
    by (auto simp add: predict_churn_unavailable)
next
  case False
  then obtain trained r where "model = Some trained" "trained p = Inr r"
    by (cases model; cases "the model p") (auto simp add: trained_unavailable_def)
  then show ?thesis
    by (simp add: predict_churn_trained)
qed





text \<open>
  C5, as the code has it. Whenever the four fields the rule-based estimator reads are numbers or
  absent, \<open>predict_churn\<close> returns in every state of the artifact; with no artifact, or when the
  trained pipeline raises, its result is the rule-based estimate, a probability in [0, 1]. When one
  of those fields holds something else, the fallback itself raises \<^verbatim>\<open>TypeError\<close>, and
  that exception reaches the caller.
\<close>

theorem predict_churn_falls_back:
  "(rule_based_input p \<longrightarrow> (\<exists>r. predict_churn model p = Inr r))
   \<and> (trained_unavailable model p \<longrightarrow>
        predict_churn model p = rule_based_churn_prediction p)
   \<and> (rule_based_input p \<and> trained_unavailable model p \<longrightarrow>
        (\<exists>r. predict_churn model p = Inr r \<and> 0 \<le> r \<and> r \<le> 1))
   \<and> (\<not> rule_based_input p \<and> trained_unavailable model p \<longrightarrow>
        predict_churn model p = Inl TypeError)"
  using predict_churn_returns [of p model] predict_churn_unavailable [of model p]
    rule_based_range [of p] rule_based_raises [of p]
  by auto

theorem predict_churn_falls_back_witness:
  "rule_based_input direct_test_profile
   \<and> trained_unavailable corrupt_model direct_test_profile
   \<and> predict_churn corrupt_model direct_test_profile = Inr (1 / 10)
   \<and> \<not> rule_based_input malformed_profile
   \<and> trained_unavailable corrupt_model malformed_profile
   \<and> predict_churn corrupt_model malformed_profile = Inl TypeError"
proof -
  have i: "rule_based_input direct_test_profile"
    by (simp add: rule_based_input_def rule_based_fields_def numeric_or_absent_def
        direct_test_profile_def)
  have u: "trained_unavailable corrupt_model q" for q
    by (simp add: trained_unavailable_def corrupt_model_def)
  have rb: "rule_based_churn_prediction direct_test_profile = Inr (1 / 10)"
    by (simp add: rule_based_churn_prediction_def direct_test_profile_def dict_get_def)
  have j: "\<not> rule_based_input malformed_profile"
    by (simp add: rule_based_input_def rule_based_fields_def numeric_or_absent_def
        malformed_profile_def)
  have a: "predict_churn corrupt_model direct_test_profile
           = rule_based_churn_prediction direct_test_profile"
    using predict_churn_falls_back [of direct_test_profile corrupt_model] u by blast
  have b: "predict_churn corrupt_model malformed_profile = Inl TypeError"
    using predict_churn_falls_back [of malformed_profile corrupt_model] u j by blast
  show ?thesis
    by (simp add: i u j a b rb)
qed

text \<open>
  With no artifact, a request whose tenure is a string makes the estimator raise inside the
  \<^verbatim>\<open>try\<close> block and again inside the handler; the second exception is not caught.
\<close>

theorem predict_churn_raises_counterexample:
  "predict_churn None malformed_profile = Inl TypeError
   \<and> predict_churn corrupt_model malformed_profile = Inl TypeError"
  by (simp add: predict_churn_def corrupt_model_def rule_based_churn_prediction_def
      malformed_profile_def dict_get_def)

text \<open>
  C6. In fallback mode the profile of \<^verbatim>\<open>test_churn_prediction_high_risk\<close> collects 0.1
  for its tenure of 3, 0.2 for its revenue of 45, nothing for its 8 interactions and 0.1 for its
  last login 21 days ago: the estimate is 0.4, which is neither above 0.5 nor in the High tier.
\<close>

theorem fallback_high_risk_scenario:
  "rule_based_churn_prediction high_risk_test_profile = Inr (2 / 5)
   \<and> predict_churn None high_risk_test_profile = Inr (2 / 5)
   \<and> risk_sum high_risk_test_profile = 1 / 10 + 2 / 10 + 0 + 1 / 10
   \<and> risk_level (2 / 5) = ''Low''"
proof -
  have rb: "rule_based_churn_prediction high_risk_test_profile = Inr (2 / 5)"
    by (simp add: rule_based_churn_prediction_def high_risk_test_profile_def dict_get_def)
  have s: "risk_sum high_risk_test_profile = 1 / 10 + 2 / 10 + 0 + 1 / 10"
    by (simp add: risk_sum_def field_value_def high_risk_test_profile_def dict_get_def
        tenure_increment_def revenue_increment_def interactions_increment_def
        login_increment_def)
  have l: "risk_level (2 / 5) = ''Low''"
    by (simp add: risk_level_def)
  from rb s l show ?thesis
    by (simp add: predict_churn_def)
qed

section \<open>The recommendation engine\<close>

lemma bindE_eq_Inr: "bindE m f = Inr y \<longleftrightarrow> (\<exists>x. m = Inr x \<and> f x = Inr y)"
  by (cases m) simp_all

lemma pool_heads:
  "take 2 (strategies ''high_churn_low_engagement'') =
     [''Schedule personal check-in call'', ''Offer product training session'']"
  "take 2 (strategies ''high_churn_low_usage'') =
     [''Offer feature demo session'', ''Provide use case examples'']"
  "take (Suc 0) (strategies ''high_churn_support_issues'') =
     [''Priority support queue assignment'']"
  "take 2 (strategies ''engagement_drop'') =
     [''Send re-engagement email campaign'', ''Offer new feature preview'']"
  "take (Suc 0) (strategies ''low_revenue'') = [''Discuss upgrade opportunities'']"
  by (simp_all add: strategies_def intervention_strategies_def)

lemma appendable_actions_eq:
  "appendable_actions =
     [''Schedule personal check-in call'', ''Offer product training session'',
      ''Offer feature demo session'', ''Provide use case examples'',
      ''Priority support queue assignment'',
      ''Send re-engagement email campaign'', ''Offer new feature preview'',
      ''Discuss upgrade opportunities'']"
  by (simp add: appendable_actions_def pool_heads)

lemma appendable_categories:
  "categorize_recommendation ''Schedule personal check-in call'' = ''Personal Outreach''"
  "categorize_recommendation ''Offer product training session'' = ''Product Education''"
  "categorize_recommendation ''Offer feature demo session'' = ''Product Education''"
  "categorize_recommendation ''Provide use case examples'' = ''Engagement''"
  "categorize_recommendation ''Priority support queue assignment'' = ''Support Enhancement''"
  "categorize_recommendation ''Send re-engagement email campaign'' = ''Engagement''"
  "categorize_recommendation ''Offer new feature preview'' = ''Engagement''"
  "categorize_recommendation ''Discuss upgrade opportunities'' = ''Commercial''"
  by code_simp+

lemma distinct_appendable_actions: "distinct appendable_actions"
  by (simp add: appendable_actions_eq)

subsection \<open>Deduplication by first occurrence\<close>

lemma set_fromkeys: "set (fromkeys seen xs) = set xs - set seen"
  by (induction xs arbitrary: seen) auto

lemma distinct_fromkeys: "distinct (fromkeys seen xs)"
  by (induction xs arbitrary: seen) (auto simp add: set_fromkeys)

lemma fromkeys_distinct_id:
  "distinct xs \<Longrightarrow> set xs \<inter> set seen = {} \<Longrightarrow> fromkeys seen xs = xs"
  by (induction xs arbitrary: seen) auto

subsection \<open>The priority loop\<close>

lemma length_prioritize: "length (prioritize i xs) = length xs"
  by (induction xs arbitrary: i) auto

lemma map_action_prioritize: "map action (prioritize i xs) = xs"
  by (induction xs arbitrary: i) auto

lemma nth_prioritize:
  "j < length xs \<Longrightarrow> prioritize i xs ! j =
     \<lparr>action = xs ! j, priority = position_priority (i + j),
      category = categorize_recommendation (xs ! j)\<rparr>"
proof (induction xs arbitrary: i j)
  case Nil
  then show ?case by simp
next
  case (Cons x xs)
  show ?case
  proof (cases j)
    case 0
    then show ?thesis by (auto simp add: position_priority_def)
  next
    case (Suc k)
    with Cons show ?thesis by simp
  qed
qed

lemma position_priority_antimono:
  "i \<le> j \<Longrightarrow> priority_rank (position_priority j) \<le> priority_rank (position_priority i)"
  by (simp add: position_priority_def priority_rank_def)

subsection \<open>The candidates\<close>

lemma high_churn_actions_props:
  assumes "high_churn_actions p = Inr xs"
  shows "distinct xs \<and> length xs \<le> 5 \<and> ''Discuss upgrade opportunities'' \<notin> set xs
    \<and> set xs \<subseteq> set appendable_actions"
  using assms
  by (auto simp add: high_churn_actions_def bindE_case pool_heads appendable_actions_eq
      split: sum.splits if_splits)

lemma medium_churn_actions_props:
  assumes "medium_churn_actions p = Inr xs"
  shows "distinct xs \<and> length xs \<le> 5 \<and> ''Discuss upgrade opportunities'' \<notin> set xs
    \<and> set xs \<subseteq> set appendable_actions"
  using assms
  by (auto simp add: medium_churn_actions_def bindE_case pool_heads appendable_actions_eq
      split: sum.splits if_splits)

lemma candidate_actions_props:
  assumes "candidate_actions p = Inr c"
  shows "distinct c \<and> length c \<le> 6 \<and> set c \<subseteq> set appendable_actions"
proof -
  from assms obtain churn_risk :: rat and recs and revenue :: rat where
    r: "(if churn_risk > 7 / 10 then high_churn_actions p
         else if churn_risk > 4 / 10 then medium_churn_actions p
         else Inr []) = Inr recs"
    and c: "c = recs @ (if revenue < 100 then take 1 (strategies ''low_revenue'') else [])"
    unfolding candidate_actions_def bindE_eq_Inr by auto
  from r have "distinct recs \<and> length recs \<le> 5
      \<and> ''Discuss upgrade opportunities'' \<notin> set recs \<and> set recs \<subseteq> set appendable_actions"
    using high_churn_actions_props [of p recs] medium_churn_actions_props [of p recs]
    by (cases "churn_risk > 7 / 10"; cases "churn_risk > 4 / 10") simp_all
  with c show ?thesis
    by (cases "revenue < 100") (simp_all add: pool_heads appendable_actions_eq)
qed

lemma fromkeys_candidate_actions:
  assumes "candidate_actions p = Inr c"
  shows "fromkeys [] c = c"
  using candidate_actions_props [OF assms] by (simp add: fromkeys_distinct_id)

lemma get_engagement_level_returns:
  assumes "numeric_or_absent p ''total_interactions''" and "numeric_or_absent p ''last_login_days''"
  shows "\<exists>e. get_engagement_level p = Inr e"
proof -
  obtain i where i: "dict_get p ''total_interactions'' (Num 0) = Num i"
    using numeric_dict_get_ex [OF assms(1)] by blast
  obtain l where l: "dict_get p ''last_login_days'' (Num 30) = Num l"
    using numeric_dict_get_ex [OF assms(2)] by blast
  show ?thesis
    by (simp add: get_engagement_level_def i l Let_def)
qed

lemma candidate_actions_returns:
  assumes "recommender_input p"
  shows "\<exists>c. candidate_actions p = Inr c"
proof -
  from assms have n: "numeric_or_absent p ''total_interactions''"
    "numeric_or_absent p ''last_login_days''" "numeric_or_absent p ''feature_usage_score''"
    "numeric_or_absent p ''support_tickets''" "numeric_or_absent p ''monthly_revenue''"
    by (simp_all add: recommender_input_def recommender_fields_def)
  from assms obtain risk where risk: "selected_churn_risk p = Num risk"
    by (cases "selected_churn_risk p") (simp_all add: recommender_input_def)
  obtain e where e: "get_engagement_level p = Inr e"
    using get_engagement_level_returns [OF n(1,2)] by blast
  obtain u where u: "dict_get p ''feature_usage_score'' (Num 0) = Num u"
    using numeric_dict_get_ex [OF n(3)] by blast
  obtain s where s: "dict_get p ''support_tickets'' (Num 0) = Num s"
    using numeric_dict_get_ex [OF n(4)] by blast
  obtain l where l: "dict_get p ''last_login_days'' (Num 0) = Num l"
    using numeric_dict_get_ex [OF n(2)] by blast
  obtain r where r: "dict_get p ''monthly_revenue'' (Num 0) = Num r"
    using numeric_dict_get_ex [OF n(5)] by blast
  have h: "\<exists>xs. high_churn_actions p = Inr xs"
    by (simp add: high_churn_actions_def e u s)
  have m: "\<exists>xs. medium_churn_actions p = Inr xs"
    by (simp add: medium_churn_actions_def l)
  from h m show ?thesis
    by (auto simp add: candidate_actions_def risk r)
qed

lemma get_recommendations_result:
  assumes "get_recommendations p = Inr recs"
  obtains c where "candidate_actions p = Inr c" and "recs = prioritize 0 (take 5 (fromkeys [] c))"
  using assms unfolding get_recommendations_def bindE_eq_Inr by auto

lemma get_recommendations_props:
  assumes "get_recommendations p = Inr recs"
  shows "distinct (map action recs)" and "length recs \<le> 5"
    and "\<forall>i < length recs. priority (recs ! i) = position_priority i"
    and "\<forall>i j. i \<le> j \<and> j < length recs \<longrightarrow>
           priority_rank (priority (recs ! j)) \<le> priority_rank (priority (recs ! i))"
proof -
  from assms obtain c where recs: "recs = prioritize 0 (take 5 (fromkeys [] c))"
    by (rule get_recommendations_result)
  show "distinct (map action recs)"
    by (simp add: recs map_action_prioritize distinct_fromkeys)
  show "length recs \<le> 5"
    by (simp add: recs length_prioritize)
  have p: "priority (recs ! i) = position_priority i" if "i < length recs" for i
    using that by (simp add: recs length_prioritize nth_prioritize)
  then show "\<forall>i < length recs. priority (recs ! i) = position_priority i"
    by blast
  show "\<forall>i j. i \<le> j \<and> j < length recs \<longrightarrow>
           priority_rank (priority (recs ! j)) \<le> priority_rank (priority (recs ! i))"
    by (simp add: p position_priority_antimono)
qed

lemma get_recommendations_returns:
  assumes "recommender_input p"
  shows "\<exists>recs. get_recommendations p = Inr recs"
proof -
  from assms obtain c where "candidate_actions p = Inr c"
    using candidate_actions_returns by blast
  then show ?thesis
    by (simp add: get_recommendations_def)
qed

text \<open>
  C4. \<open>get_recommendations\<close> returns on every profile whose churn risk and fields are numeric,
  and every list it returns has pairwise different action strings, at most five entries, and
  priorities given by position: indices 0 and 1 High, 2 and 3 Medium, 4 Low; so the priority never
  rises along the list.
\<close>

theorem recommendations_distinct_short_prioritized:
  "(recommender_input p \<longrightarrow> (\<exists>recs. get_recommendations p = Inr recs))
   \<and> (\<forall>recs. get_recommendations p = Inr recs \<longrightarrow>
         distinct (map action recs) \<and> length recs \<le> 5
         \<and> (\<forall>i < length recs. priority (recs ! i) = position_priority i)
         \<and> (\<forall>i j. i \<le> j \<and> j < length recs \<longrightarrow>
               priority_rank (priority (recs ! j)) \<le> priority_rank (priority (recs ! i))))"
  using get_recommendations_returns [of p] get_recommendations_props [of p]
  by blast

lemma at_risk_candidate_actions: "candidate_actions at_risk_profile = Inr at_risk_candidates"
  by (simp add: candidate_actions_def high_churn_actions_def get_engagement_level_def
      selected_churn_risk_def dict_get_def at_risk_profile_def pool_heads at_risk_candidates_def)

lemma at_risk_get_recommendations:
  "get_recommendations at_risk_profile = Inr at_risk_recommendations"
  by (simp add: get_recommendations_def at_risk_candidate_actions at_risk_candidates_def
      at_risk_recommendations_def appendable_categories)

theorem recommendations_distinct_short_prioritized_witness:
  "recommender_input at_risk_profile
   \<and> get_recommendations at_risk_profile = Inr at_risk_recommendations
   \<and> length at_risk_recommendations = 5
   \<and> distinct (map action at_risk_recommendations)
   \<and> priority (at_risk_recommendations ! 4) = ''Low''"
proof -
  have i: "recommender_input at_risk_profile"
    by (simp add: recommender_input_def recommender_fields_def numeric_or_absent_def
        selected_churn_risk_def at_risk_profile_def)
  note g = at_risk_get_recommendations
  have l: "length at_risk_recommendations = 5"
    by (simp add: at_risk_recommendations_def)
  from recommendations_distinct_short_prioritized [of at_risk_profile] g
  have "distinct (map action at_risk_recommendations)"
    and "\<forall>i < length at_risk_recommendations.
           priority (at_risk_recommendations ! i) = position_priority i"
    by blast+
  with i g l show ?thesis
    by (simp add: position_priority_def)
qed

lemma recommendations_test_selected:
  "selected_churn_risk recommendations_test_profile = Num (65 / 100)"
  by (simp add: selected_churn_risk_def recommendations_test_profile_def)

lemma recommendations_test_medium:
  "medium_churn_actions recommendations_test_profile = Inr []"
  by (simp add: medium_churn_actions_def dict_get_def recommendations_test_profile_def)

lemma recommendations_test_candidates:
  "candidate_actions recommendations_test_profile = Inr (take 1 (strategies ''low_revenue''))"
proof -
  have r: "dict_get recommendations_test_profile ''monthly_revenue'' (Num 0) = Num 75"
    by (simp add: dict_get_def recommendations_test_profile_def)
  show ?thesis
    by (simp add: candidate_actions_def recommendations_test_selected
        recommendations_test_medium r)
qed

lemma recommendations_test_result:
  "get_recommendations recommendations_test_profile =
     Inr [\<lparr>action = ''Discuss upgrade opportunities'', priority = ''High'',
           category = ''Commercial''\<rparr>]"
  by (simp add: get_recommendations_def recommendations_test_candidates pool_heads
      appendable_categories)

text \<open>
  C7. The profile of \<^verbatim>\<open>test_intervention_recommendations\<close> has churn probability 0.65,
  which is the medium tier; its last login of 14 days is not more than 14, so nothing of
  \<open>engagement_drop\<close> is appended; its revenue of 75 is below 100, so the first action of
  \<open>low_revenue\<close> is. The result is that one action, with priority High.
\<close>

theorem recommendations_test_scenario:
  "selected_churn_risk recommendations_test_profile = Num (65 / 100)
   \<and> risk_level (65 / 100) = ''Medium''
   \<and> medium_churn_actions recommendations_test_profile = Inr []
   \<and> candidate_actions recommendations_test_profile = Inr (take 1 (strategies ''low_revenue''))
   \<and> get_recommendations recommendations_test_profile =
       Inr [\<lparr>action = ''Discuss upgrade opportunities'', priority = ''High'',
             category = ''Commercial''\<rparr>]"
proof -
  have l: "risk_level (65 / 100) = ''Medium''"
    by (simp add: risk_level_def)
  from recommendations_test_selected l recommendations_test_medium
    recommendations_test_candidates recommendations_test_result
  show ?thesis by blast
qed

text \<open>
  C10. The eight action strings that the selection can append are pairwise different, a candidate
  list has at most six entries, all different, so the deduplication returns it unchanged, and
  \<open>get_recommendations\<close> equals the same computation without the deduplication, on every
  input.
\<close>

theorem deduplication_removes_nothing:
  "distinct appendable_actions
   \<and> (\<forall>c. candidate_actions p = Inr c \<longrightarrow>
         set c \<subseteq> set appendable_actions \<and> distinct c \<and> length c \<le> 6
         \<and> fromkeys [] c = c)
   \<and> get_recommendations p = get_recommendations_without_dedup p"
proof (intro conjI allI impI)
  show "distinct appendable_actions"
    by (rule distinct_appendable_actions)
next
  fix c
  assume c: "candidate_actions p = Inr c"
  from candidate_actions_props [OF c]
  show "set c \<subseteq> set appendable_actions" "distinct c" "length c \<le> 6"
    by blast+
  from c show "fromkeys [] c = c"
    by (rule fromkeys_candidate_actions)
next
  show "get_recommendations p = get_recommendations_without_dedup p"
  proof (cases "candidate_actions p")
    case (Inl e)
    then show ?thesis
      by (simp add: get_recommendations_def get_recommendations_without_dedup_def)
  next
    case (Inr c)
    then show ?thesis
      by (simp add: get_recommendations_def get_recommendations_without_dedup_def
          fromkeys_candidate_actions)
  qed
qed

theorem deduplication_removes_nothing_witness:
  "candidate_actions at_risk_profile = Inr at_risk_candidates
   \<and> length at_risk_candidates = 6
   \<and> fromkeys [] at_risk_candidates = at_risk_candidates
   \<and> get_recommendations_without_dedup at_risk_profile = Inr at_risk_recommendations"
proof -
  note c = at_risk_candidate_actions
  have l: "length at_risk_candidates = 6"
    by (simp add: at_risk_candidates_def)
  from deduplication_removes_nothing [of at_risk_profile] c
  have "fromkeys [] at_risk_candidates = at_risk_candidates"
    and "get_recommendations at_risk_profile = get_recommendations_without_dedup at_risk_profile"
    by blast+
  with c l at_risk_get_recommendations show ?thesis
    by simp
qed

section \<open>Which churn risk is used\<close>

lemma get_engagement_level_cong:
  assumes "dict_get q ''total_interactions'' (Num 0) = dict_get p ''total_interactions'' (Num 0)"
    and "dict_get q ''last_login_days'' (Num 30) = dict_get p ''last_login_days'' (Num 30)"
  shows "get_engagement_level q = get_engagement_level p"
  by (simp add: get_engagement_level_def assms)

lemma high_churn_actions_cong:
  assumes "dict_get q ''total_interactions'' (Num 0) = dict_get p ''total_interactions'' (Num 0)"
    and "dict_get q ''last_login_days'' (Num 30) = dict_get p ''last_login_days'' (Num 30)"
    and "dict_get q ''feature_usage_score'' (Num 0) = dict_get p ''feature_usage_score'' (Num 0)"
    and "dict_get q ''support_tickets'' (Num 0) = dict_get p ''support_tickets'' (Num 0)"
  shows "high_churn_actions q = high_churn_actions p"
  by (simp add: high_churn_actions_def get_engagement_level_cong [OF assms(1,2)] assms(3,4))

lemma medium_churn_actions_cong:
  assumes "dict_get q ''last_login_days'' (Num 0) = dict_get p ''last_login_days'' (Num 0)"
  shows "medium_churn_actions q = medium_churn_actions p"
  by (simp add: medium_churn_actions_def assms)

lemma candidate_actions_cong:
  assumes "selected_churn_risk q = selected_churn_risk p"
    and "high_churn_actions q = high_churn_actions p"
    and "medium_churn_actions q = medium_churn_actions p"
    and "dict_get q ''monthly_revenue'' (Num 0) = dict_get p ''monthly_revenue'' (Num 0)"
  shows "candidate_actions q = candidate_actions p"
  unfolding candidate_actions_def assms by (rule refl)

lemma get_recommendations_cong:
  "candidate_actions q = candidate_actions p \<Longrightarrow> get_recommendations q = get_recommendations p"
  by (simp add: get_recommendations_def)

lemma selected_churn_risk_update:
  "k \<noteq> ''churn_risk'' \<Longrightarrow> k \<noteq> ''churn_probability'' \<Longrightarrow>
   selected_churn_risk (p(k := x)) = selected_churn_risk p"
  by (simp add: selected_churn_risk_def dict_get_def)

lemma dict_get_update:
  "dict_get (p(k := x)) k' d =
     (if k' = k then (case x of None \<Rightarrow> d | Some v \<Rightarrow> v) else dict_get p k' d)"
  by (simp add: dict_get_def)

lemma churn_risk_ignored:
  assumes "p ''churn_probability'' = Some v"
  shows "selected_churn_risk p = v"
    and "get_recommendations (p(''churn_risk'' := x)) = get_recommendations p"
proof -
  show s: "selected_churn_risk p = v"
    by (simp add: selected_churn_risk_def assms)
  have "selected_churn_risk (p(''churn_risk'' := x)) = v"
    by (simp add: selected_churn_risk_def assms)
  with s show "get_recommendations (p(''churn_risk'' := x)) = get_recommendations p"
    by (intro get_recommendations_cong candidate_actions_cong high_churn_actions_cong
        medium_churn_actions_cong) (simp_all add: dict_get_update)
qed

lemma churn_risk_used:
  assumes "p ''churn_probability'' = None" and "p ''churn_risk'' = Some v"
  shows "selected_churn_risk p = v"
    and "get_recommendations p = get_recommendations (p(''churn_probability'' \<mapsto> v))"
proof -
  show s: "selected_churn_risk p = v"
    by (simp add: selected_churn_risk_def dict_get_def assms)
  have "selected_churn_risk (p(''churn_probability'' \<mapsto> v)) = v"
    by (simp add: selected_churn_risk_def)
  with s show "get_recommendations p = get_recommendations (p(''churn_probability'' \<mapsto> v))"
    by (intro get_recommendations_cong candidate_actions_cong high_churn_actions_cong
        medium_churn_actions_cong) (simp_all add: dict_get_update)
qed

lemma churn_risk_default:
  assumes "p ''churn_probability'' = None" and "p ''churn_risk'' = None"
  shows "selected_churn_risk p = Num 0"
    and "get_recommendations p = get_recommendations (p(''churn_probability'' \<mapsto> Num 0))"
    and "candidate_actions p = low_revenue_actions p"
proof -
  show s: "selected_churn_risk p = Num 0"
    by (simp add: selected_churn_risk_def dict_get_def assms)
  have "selected_churn_risk (p(''churn_probability'' \<mapsto> Num 0)) = Num 0"
    by (simp add: selected_churn_risk_def)
  with s show "get_recommendations p = get_recommendations (p(''churn_probability'' \<mapsto> Num 0))"
    by (intro get_recommendations_cong candidate_actions_cong high_churn_actions_cong
        medium_churn_actions_cong) (simp_all add: dict_get_update)
  show "candidate_actions p = low_revenue_actions p"
    by (simp add: candidate_actions_def s low_revenue_actions_def)
qed

lemma selected_is_risk_used: "selected_churn_risk p = risk_used p"
  by (simp add: selected_churn_risk_def risk_used_def dict_get_def split: option.splits)

lemma candidate_actions_by_tier:
  assumes "risk_used p = Num r"
  shows "7 / 10 < r \<Longrightarrow> candidate_actions p = then_low_revenue (high_churn_actions p) p"
    and "4 / 10 < r \<Longrightarrow> r \<le> 7 / 10 \<Longrightarrow>
           candidate_actions p = then_low_revenue (medium_churn_actions p) p"
    and "r \<le> 4 / 10 \<Longrightarrow> candidate_actions p = low_revenue_actions p"
  by (simp_all add: candidate_actions_def selected_is_risk_used assms then_low_revenue_def
      low_revenue_actions_def)

lemma candidate_actions_non_number:
  assumes "\<not> is_number (risk_used p)"
  shows "candidate_actions p = Inl TypeError"
  using assms
  by (cases "risk_used p") (simp_all add: candidate_actions_def selected_is_risk_used)

text \<open>
  C9. The churn risk that selects the tier is the value of \<open>churn_probability\<close> when that key is
  present, else the value of \<open>churn_risk\<close> when that key is present, else 0. A risk above 0.7
  runs the high-tier branch, a risk above 0.4 and at most 0.7 the medium-tier branch, a risk of at
  most 0.4 (so the risk 0 of a profile with neither key) neither: the candidates are then those of
  the low-revenue check alone. A risk that is not a number raises \<^verbatim>\<open>TypeError\<close>. With
  \<open>churn_probability\<close> present, the key \<open>churn_risk\<close> may hold anything or be absent without
  any effect on the result.
\<close>

theorem churn_probability_takes_precedence:
  "selected_churn_risk p = risk_used p
   \<and> (\<forall>r. risk_used p = Num r \<longrightarrow>
        (7 / 10 < r \<longrightarrow>
           candidate_actions p = then_low_revenue (high_churn_actions p) p)
        \<and> (4 / 10 < r \<and> r \<le> 7 / 10 \<longrightarrow>
           candidate_actions p = then_low_revenue (medium_churn_actions p) p)
        \<and> (r \<le> 4 / 10 \<longrightarrow> candidate_actions p = low_revenue_actions p))
   \<and> (\<not> is_number (risk_used p) \<longrightarrow> candidate_actions p = Inl TypeError)
   \<and> (p ''churn_probability'' = Some v \<longrightarrow>
        risk_used p = v
        \<and> (\<forall>x. get_recommendations (p(''churn_risk'' := x)) = get_recommendations p))
   \<and> (p ''churn_probability'' = None \<and> p ''churn_risk'' = Some v \<longrightarrow>
        risk_used p = v
        \<and> get_recommendations p = get_recommendations (p(''churn_probability'' \<mapsto> v)))
   \<and> (p ''churn_probability'' = None \<and> p ''churn_risk'' = None \<longrightarrow>
        risk_used p = Num 0
        \<and> get_recommendations p = get_recommendations (p(''churn_probability'' \<mapsto> Num 0))
        \<and> candidate_actions p = low_revenue_actions p)"
proof -
  have 1: "\<forall>r. risk_used p = Num r \<longrightarrow>
        (7 / 10 < r \<longrightarrow>
           candidate_actions p = then_low_revenue (high_churn_actions p) p)
        \<and> (4 / 10 < r \<and> r \<le> 7 / 10 \<longrightarrow>
           candidate_actions p = then_low_revenue (medium_churn_actions p) p)
        \<and> (r \<le> 4 / 10 \<longrightarrow> candidate_actions p = low_revenue_actions p)"
  proof (intro allI impI conjI)
    fix r
    assume r: "risk_used p = Num r"
    show "candidate_actions p = then_low_revenue (high_churn_actions p) p" if "7 / 10 < r"
      using that by (rule candidate_actions_by_tier(1) [OF r])
    show "candidate_actions p = then_low_revenue (medium_churn_actions p) p"
      if "4 / 10 < r \<and> r \<le> 7 / 10"
      using that [THEN conjunct1] that [THEN conjunct2]
      by (rule candidate_actions_by_tier(2) [OF r])
    show "candidate_actions p = low_revenue_actions p" if "r \<le> 4 / 10"
      using that by (rule candidate_actions_by_tier(3) [OF r])
  qed
  have 2: "\<not> is_number (risk_used p) \<longrightarrow> candidate_actions p = Inl TypeError"
    by (intro impI candidate_actions_non_number)
  have 3: "p ''churn_probability'' = Some v \<longrightarrow>
        risk_used p = v
        \<and> (\<forall>x. get_recommendations (p(''churn_risk'' := x)) = get_recommendations p)"
  proof (intro impI conjI allI)
    assume a: "p ''churn_probability'' = Some v"
    from churn_risk_ignored(1) [of p v, OF a] show "risk_used p = v"
      by (simp only: selected_is_risk_used)
    fix x
    show "get_recommendations (p(''churn_risk'' := x)) = get_recommendations p"
      by (rule churn_risk_ignored(2) [of p v, OF a])
  qed
  have 4: "p ''churn_probability'' = None \<and> p ''churn_risk'' = Some v \<longrightarrow>
        risk_used p = v
        \<and> get_recommendations p = get_recommendations (p(''churn_probability'' \<mapsto> v))"
  proof (intro impI conjI)
    assume a: "p ''churn_probability'' = None \<and> p ''churn_risk'' = Some v"
    from churn_risk_used(1) [of p v, OF a [THEN conjunct1] a [THEN conjunct2]] show "risk_used p = v"
      by (simp only: selected_is_risk_used)
    show "get_recommendations p = get_recommendations (p(''churn_probability'' \<mapsto> v))"
      by (rule churn_risk_used(2) [of p v, OF a [THEN conjunct1] a [THEN conjunct2]])
  qed
  have 5: "p ''churn_probability'' = None \<and> p ''churn_risk'' = None \<longrightarrow>
        risk_used p = Num 0
        \<and> get_recommendations p = get_recommendations (p(''churn_probability'' \<mapsto> Num 0))
        \<and> candidate_actions p = low_revenue_actions p"
  proof (intro impI conjI)
    assume a: "p ''churn_probability'' = None \<and> p ''churn_risk'' = None"
    note d = churn_risk_default [of p, OF a [THEN conjunct1] a [THEN conjunct2]]
    from d(1) show "risk_used p = Num 0"
      by (simp only: selected_is_risk_used)
    show "get_recommendations p = get_recommendations (p(''churn_probability'' \<mapsto> Num 0))"
      by (rule d(2))
    show "candidate_actions p = low_revenue_actions p"
      by (rule d(3))
  qed
  show ?thesis
    by (rule conjI [OF selected_is_risk_used conjI [OF 1 conjI [OF 2 conjI [OF 3
            conjI [OF 4 5]]]]])
qed

lemma lapsed_fields:
  "dict_get conflicting_risk_profile ''last_login_days'' (Num 0) = Num 21"
  "dict_get conflicting_risk_profile ''monthly_revenue'' (Num 0) = Num 75"
  "dict_get stored_risk_profile ''total_interactions'' (Num 0) = Num 1"
  "dict_get stored_risk_profile ''last_login_days'' (Num 30) = Num 21"
  "dict_get stored_risk_profile ''feature_usage_score'' (Num 0) = Num 0"
  "dict_get stored_risk_profile ''support_tickets'' (Num 0) = Num 0"
  "dict_get stored_risk_profile ''monthly_revenue'' (Num 0) = Num 75"
  "dict_get lapsed_profile ''monthly_revenue'' (Num 0) = Num 75"
  by (simp_all add: dict_get_def conflicting_risk_profile_def stored_risk_profile_def
      lapsed_profile_def)

lemma lapsed_risk_used:
  "risk_used conflicting_risk_profile = Num (65 / 100)"
  "risk_used stored_risk_profile = Num (95 / 100)"
  "risk_used lapsed_profile = Num 0"
  by (simp_all add: risk_used_def conflicting_risk_profile_def stored_risk_profile_def
      lapsed_profile_def)

lemma lapsed_branches:
  "then_low_revenue (medium_churn_actions conflicting_risk_profile) conflicting_risk_profile =
     Inr [''Send re-engagement email campaign'', ''Offer new feature preview'',
          ''Discuss upgrade opportunities'']"
  "then_low_revenue (high_churn_actions stored_risk_profile) stored_risk_profile =
     Inr [''Schedule personal check-in call'', ''Offer product training session'',
          ''Offer feature demo session'', ''Provide use case examples'',
          ''Discuss upgrade opportunities'']"
  "low_revenue_actions lapsed_profile = Inr [''Discuss upgrade opportunities'']"
  by (simp_all add: then_low_revenue_def medium_churn_actions_def high_churn_actions_def
      get_engagement_level_def low_revenue_actions_def lapsed_fields pool_heads)

theorem churn_probability_takes_precedence_witness:
  "conflicting_risk_profile ''churn_risk'' = Some (Num (95 / 100))
   \<and> conflicting_risk_profile ''churn_probability'' = Some (Num (65 / 100))
   \<and> candidate_actions conflicting_risk_profile =
       Inr [''Send re-engagement email campaign'', ''Offer new feature preview'',
            ''Discuss upgrade opportunities'']
   \<and> stored_risk_profile ''churn_risk'' = Some (Num (95 / 100))
   \<and> stored_risk_profile ''churn_probability'' = None
   \<and> candidate_actions stored_risk_profile =
       Inr [''Schedule personal check-in call'', ''Offer product training session'',
            ''Offer feature demo session'', ''Provide use case examples'',
            ''Discuss upgrade opportunities'']
   \<and> lapsed_profile ''churn_risk'' = None
   \<and> lapsed_profile ''churn_probability'' = None
   \<and> candidate_actions lapsed_profile = Inr [''Discuss upgrade opportunities'']"
proof -
  have k: "conflicting_risk_profile ''churn_risk'' = Some (Num (95 / 100))"
    "conflicting_risk_profile ''churn_probability'' = Some (Num (65 / 100))"
    "stored_risk_profile ''churn_risk'' = Some (Num (95 / 100))"
    "stored_risk_profile ''churn_probability'' = None"
    "lapsed_profile ''churn_risk'' = None"
    "lapsed_profile ''churn_probability'' = None"
    by (simp_all add: conflicting_risk_profile_def stored_risk_profile_def lapsed_profile_def)
  have m: "(4::rat) / 10 < 65 / 100 \<and> (65::rat) / 100 \<le> 7 / 10"
    and h: "(7::rat) / 10 < 95 / 100" and l: "(0::rat) \<le> 4 / 10"
    by simp_all
  note t1 = churn_probability_takes_precedence [of conflicting_risk_profile, THEN conjunct2,
      THEN conjunct1, THEN spec, THEN mp, OF lapsed_risk_used(1), THEN conjunct2,
      THEN conjunct1, THEN mp, OF m]
  note t2 = churn_probability_takes_precedence [of stored_risk_profile, THEN conjunct2,
      THEN conjunct1, THEN spec, THEN mp, OF lapsed_risk_used(2), THEN conjunct1, THEN mp, OF h]
  note t3 = churn_probability_takes_precedence [of lapsed_profile, THEN conjunct2,
      THEN conjunct1, THEN spec, THEN mp, OF lapsed_risk_used(3), THEN conjunct2,
      THEN conjunct2, THEN mp, OF l]
  show ?thesis
    by (simp only: k t1 t2 t3 lapsed_branches simp_thms)
qed

section \<open>Absent fields\<close>

lemma rule_based_absent_zero:
  "rule_based_churn_prediction (p(k := None)) = rule_based_churn_prediction (p(k \<mapsto> Num 0))"
  by (simp add: rule_based_churn_prediction_def dict_get_def)

lemma health_absent:
  "k \<noteq> ''last_login_days'' \<Longrightarrow> k \<noteq> ''tenure_months'' \<Longrightarrow>
     calculate_health_score (p(k := None)) = calculate_health_score (p(k \<mapsto> Num 0))"
  "calculate_health_score (p(''last_login_days'' := None))
     = calculate_health_score (p(''last_login_days'' \<mapsto> Num 30))"
  "calculate_health_score (p(''tenure_months'' := None))
     = calculate_health_score (p(''tenure_months'' \<mapsto> Num 1))"
  by (simp_all add: calculate_health_score_def calculate_engagement_score_def
      calculate_usage_score_def calculate_satisfaction_score_def calculate_financial_score_def
      calculate_support_score_def dict_get_def)

lemma recommendations_absent_zero:
  assumes "k \<noteq> ''last_login_days''" and "k \<noteq> ''churn_risk''"
    and "k \<noteq> ''churn_probability''"
  shows "get_recommendations (p(k := None)) = get_recommendations (p(k \<mapsto> Num 0))"
proof -
  have "selected_churn_risk (p(k := None)) = selected_churn_risk (p(k \<mapsto> Num 0))"
    by (simp add: selected_churn_risk_update assms)
  then show ?thesis
    by (intro get_recommendations_cong candidate_actions_cong high_churn_actions_cong
        medium_churn_actions_cong) (insert assms, auto simp add: dict_get_update)
qed

lemma recommendations_absent_login:
  "get_recommendations (p(''last_login_days'' := None)) =
     (if high_tier p then get_recommendations (p(''last_login_days'' \<mapsto> Num 30))
      else get_recommendations (p(''last_login_days'' \<mapsto> Num 0)))"
proof -
  have s: "selected_churn_risk (p(''last_login_days'' := x)) = selected_churn_risk p" for x
    by (simp add: selected_churn_risk_update)
  have h: "high_churn_actions (p(''last_login_days'' := None))
           = high_churn_actions (p(''last_login_days'' \<mapsto> Num 30))"
    by (intro high_churn_actions_cong) (simp_all add: dict_get_update)
  have m: "medium_churn_actions (p(''last_login_days'' := None))
           = medium_churn_actions (p(''last_login_days'' \<mapsto> Num 0))"
    by (intro medium_churn_actions_cong) (simp_all add: dict_get_update)
  have r: "dict_get (p(''last_login_days'' := x)) ''monthly_revenue'' (Num 0)
           = dict_get p ''monthly_revenue'' (Num 0)" for x
    by (simp add: dict_get_update)
  have "candidate_actions (p(''last_login_days'' := None)) =
     (if high_tier p then candidate_actions (p(''last_login_days'' \<mapsto> Num 30))
      else candidate_actions (p(''last_login_days'' \<mapsto> Num 0)))"
    by (cases "selected_churn_risk p") (simp_all add: candidate_actions_def s r h m high_tier_def)
  then show ?thesis
    by (simp add: get_recommendations_def)
qed

text \<open>
  C3, as the code has it. The rule-based estimator treats every absent field as 0. The health score
  treats an absent field as 0, except \<open>last_login_days\<close>, which it treats as 30, and
  \<open>tenure_months\<close>, which it treats as 1. The recommender treats an absent field as 0, except
  \<open>last_login_days\<close>, which counts as 30 in the engagement level of the high tier and as 0 in the
  check of the medium tier.
\<close>

theorem absent_field_defaults:
  "(\<forall>k \<in> set feature_columns.
      rule_based_churn_prediction (p(k := None)) = rule_based_churn_prediction (p(k \<mapsto> Num 0)))
   \<and> (\<forall>k \<in> set feature_columns. k \<noteq> ''last_login_days'' \<and> k \<noteq> ''tenure_months'' \<longrightarrow>
        calculate_health_score (p(k := None)) = calculate_health_score (p(k \<mapsto> Num 0)))
   \<and> calculate_health_score (p(''last_login_days'' := None))
       = calculate_health_score (p(''last_login_days'' \<mapsto> Num 30))
   \<and> calculate_health_score (p(''tenure_months'' := None))
       = calculate_health_score (p(''tenure_months'' \<mapsto> Num 1))
   \<and> (\<forall>k \<in> set feature_columns. k \<noteq> ''last_login_days'' \<longrightarrow>
        get_recommendations (p(k := None)) = get_recommendations (p(k \<mapsto> Num 0)))
   \<and> get_recommendations (p(''last_login_days'' := None)) =
       (if high_tier p then get_recommendations (p(''last_login_days'' \<mapsto> Num 30))
        else get_recommendations (p(''last_login_days'' \<mapsto> Num 0)))"
proof -
  have 1: "\<forall>k \<in> set feature_columns.
      rule_based_churn_prediction (p(k := None)) = rule_based_churn_prediction (p(k \<mapsto> Num 0))"
    by (intro ballI rule_based_absent_zero)
  have 2: "\<forall>k \<in> set feature_columns. k \<noteq> ''last_login_days'' \<and> k \<noteq> ''tenure_months'' \<longrightarrow>
        calculate_health_score (p(k := None)) = calculate_health_score (p(k \<mapsto> Num 0))"
  proof (intro ballI impI)
    fix k
    assume "k \<noteq> ''last_login_days'' \<and> k \<noteq> ''tenure_months''"
    then have "k \<noteq> ''last_login_days''" and "k \<noteq> ''tenure_months''"
      by (rule conjunct1, rule conjunct2)
    then show "calculate_health_score (p(k := None)) = calculate_health_score (p(k \<mapsto> Num 0))"
      by (rule health_absent(1))
  qed
  have 5: "\<forall>k \<in> set feature_columns. k \<noteq> ''last_login_days'' \<longrightarrow>
        get_recommendations (p(k := None)) = get_recommendations (p(k \<mapsto> Num 0))"
  proof (intro ballI impI)
    fix k
    assume k: "k \<in> set feature_columns" and l: "k \<noteq> ''last_login_days''"
    from k have "k \<noteq> ''churn_risk''" and "k \<noteq> ''churn_probability''"
      by (auto simp add: feature_columns_def)
    with l show "get_recommendations (p(k := None)) = get_recommendations (p(k \<mapsto> Num 0))"
      by (rule recommendations_absent_zero)
  qed
  show ?thesis
    by (rule conjI [OF 1 conjI [OF 2 conjI [OF health_absent(2) conjI [OF health_absent(3)
            conjI [OF 5 recommendations_absent_login]]]]])
qed

theorem absent_field_defaults_witness:
  "''monthly_revenue'' \<in> set feature_columns
   \<and> rule_based_churn_prediction (direct_test_profile(''monthly_revenue'' := None))
       = rule_based_churn_prediction (direct_test_profile(''monthly_revenue'' \<mapsto> Num 0))
   \<and> calculate_health_score (direct_test_profile(''monthly_revenue'' := None))
       = calculate_health_score (direct_test_profile(''monthly_revenue'' \<mapsto> Num 0))
   \<and> get_recommendations (direct_test_profile(''monthly_revenue'' := None))
       = get_recommendations (direct_test_profile(''monthly_revenue'' \<mapsto> Num 0))"
proof -
  have m: "''monthly_revenue'' \<in> set feature_columns"
    by (simp add: feature_columns_def)
  have n: "''monthly_revenue'' \<noteq> ''last_login_days'' \<and> ''monthly_revenue'' \<noteq> ''tenure_months''"
    by simp
  note t = absent_field_defaults [of direct_test_profile]
  note t1 = t [THEN conjunct1, THEN bspec, OF m]
  note t2 = t [THEN conjunct2, THEN conjunct1, THEN bspec, OF m, THEN mp, OF n]
  note t5 = t [THEN conjunct2, THEN conjunct2, THEN conjunct2, THEN conjunct2, THEN conjunct1,
      THEN bspec, OF m, THEN mp, OF n [THEN conjunct1]]
  show ?thesis
    by (rule conjI [OF m conjI [OF t1 conjI [OF t2 t5]]])
qed

text \<open>
  The empty profile and the profile whose only field is a last login of 0 days differ in nothing
  but that the field is absent in the first; their health scores are 36.3 and 45.3.
\<close>

theorem absent_login_counterexample:
  "calculate_health_score Map.empty = Inr (363 / 10)
   \<and> calculate_health_score [''last_login_days'' \<mapsto> Num 0] = Inr (453 / 10)"
  by (simp add: calculate_health_score_def calculate_engagement_score_def
      calculate_usage_score_def calculate_satisfaction_score_def calculate_financial_score_def
      calculate_support_score_def dict_get_def true_divide_def)

section \<open>Categories\<close>

lemma str_contains_sublist: "str_contains sub s = sublist sub s"
  by (induction s) (auto simp add: sublist_Cons_right)

lemma map_eq_append_middle:
  assumes "map f s = ps @ k @ ss"
  shows "\<exists>before w after. s = before @ w @ after \<and> map f w = k"
proof -
  define w where "w = take (length k) (drop (length ps) s)"
  have "s = take (length ps) s @ w @ drop (length k) (drop (length ps) s)"
    by (simp only: w_def append_take_drop_id)
  moreover have "map f w = take (length k) (drop (length ps) (map f s))"
    by (simp only: w_def take_map drop_map)
  then have "map f w = k"
    by (simp add: assms)
  ultimately show ?thesis by blast
qed

lemma str_contains_lower:
  assumes "lower keyword = keyword"
  shows "str_contains keyword (lower s) = occurs_ignoring_case keyword s"
proof
  assume "str_contains keyword (lower s)"
  then have "\<exists>ps ss. map lower_char s = ps @ keyword @ ss"
    by (simp only: str_contains_sublist sublist_def lower_def)
  then obtain ps ss where "map lower_char s = ps @ keyword @ ss"
    by (elim exE)
  from map_eq_append_middle [OF this]
  obtain before w after where s: "s = before @ w @ after" and w: "map lower_char w = keyword"
    by (elim exE conjE)
  from w assms have "lower w = lower keyword"
    by (simp only: lower_def)
  with s show "occurs_ignoring_case keyword s"
    unfolding occurs_ignoring_case_def by (intro exI conjI)
next
  assume "occurs_ignoring_case keyword s"
  then obtain before w after where s: "s = before @ w @ after" and w: "lower w = lower keyword"
    unfolding occurs_ignoring_case_def by (elim exE conjE)
  have "lower s = lower before @ lower w @ lower after"
    by (simp only: s lower_def map_append)
  then have "lower s = lower before @ keyword @ lower after"
    by (simp only: w assms)
  then have "sublist keyword (lower s)"
    unfolding sublist_def by (intro exI)
  then show "str_contains keyword (lower s)"
    by (simp only: str_contains_sublist)
qed

lemma keywords_lower:
  "lower ''call'' = ''call''" "lower ''personal'' = ''personal''"
  "lower ''training'' = ''training''" "lower ''demo'' = ''demo''"
  "lower ''support'' = ''support''" "lower ''technical'' = ''technical''"
  "lower ''discount'' = ''discount''" "lower ''upgrade'' = ''upgrade''"
  by code_simp+

lemma bex_pair: "(\<exists>k \<in> set [a, b]. P k) = (P a \<or> P b)"
  by simp

lemma first_match_keyword_table:
  "first_match keyword_table r =
     (if occurs_ignoring_case ''call'' r \<or> occurs_ignoring_case ''personal'' r
        then ''Personal Outreach''
      else if occurs_ignoring_case ''training'' r \<or> occurs_ignoring_case ''demo'' r
        then ''Product Education''
      else if occurs_ignoring_case ''support'' r \<or> occurs_ignoring_case ''technical'' r
        then ''Support Enhancement''
      else if occurs_ignoring_case ''discount'' r \<or> occurs_ignoring_case ''upgrade'' r
        then ''Commercial''
      else ''Engagement'')"
  by (simp only: keyword_table_def first_match.simps bex_pair)

lemma categorize_first_match:
  "categorize_recommendation r = first_match keyword_table r"
  by (simp only: first_match_keyword_table categorize_recommendation_def
      str_contains_lower [OF keywords_lower(1)] str_contains_lower [OF keywords_lower(2)]
      str_contains_lower [OF keywords_lower(3)] str_contains_lower [OF keywords_lower(4)]
      str_contains_lower [OF keywords_lower(5)] str_contains_lower [OF keywords_lower(6)]
      str_contains_lower [OF keywords_lower(7)] str_contains_lower [OF keywords_lower(8)])

lemma if_chain_member:
  "(if a then x1 else if b then x2 else if c then x3 else if d then x4 else x5)
     \<in> set [x1, x2, x3, x4, x5]"
  by simp

lemma categorize_values: "categorize_recommendation r \<in> set category_values"
  unfolding categorize_recommendation_def category_values_def
  by (rule if_chain_member)

lemma category_prioritize:
  "rec \<in> set (prioritize i xs) \<Longrightarrow> category rec = categorize_recommendation (action rec)"
  by (induction xs arbitrary: i) auto

lemma get_recommendations_categories:
  assumes "get_recommendations p = Inr recs" and "rec \<in> set recs"
  shows "category rec = first_match keyword_table (action rec)"
    and "category rec \<in> set category_values"
proof -
  from assms(1) obtain c where "recs = prioritize 0 (take 5 (fromkeys [] c))"
    by (rule get_recommendations_result)
  with assms(2) have c: "category rec = categorize_recommendation (action rec)"
    by (simp add: category_prioritize)
  then show "category rec = first_match keyword_table (action rec)"
    by (simp only: categorize_first_match)
  from c show "category rec \<in> set category_values"
    by (simp only: categorize_values)
qed

lemma example_categories:
  "categorize_recommendation ''Schedule product update call'' = ''Personal Outreach''"
  "categorize_recommendation ''Technical expert consultation'' = ''Support Enhancement''"
  by code_simp+

text \<open>
  C8. The category of an action string is that of the first row of the keyword table one of whose
  keywords occurs in the string, letter case ignored: ``call'' or ``personal'' give Personal
  Outreach, then ``training'' or ``demo'' Product Education, then ``support'' or ``technical''
  Support Enhancement, then ``discount'' or ``upgrade'' Commercial, and Engagement otherwise. It
  is always one of these five values, and so is the category of every recommendation returned.
\<close>

theorem category_is_first_keyword_match:
  "categorize_recommendation r = first_match keyword_table r
   \<and> categorize_recommendation r \<in> set category_values
   \<and> (\<forall>recs. get_recommendations p = Inr recs \<longrightarrow>
        (\<forall>rec \<in> set recs. category rec = first_match keyword_table (action rec)
                          \<and> category rec \<in> set category_values))"
proof -
  have "\<forall>recs. get_recommendations p = Inr recs \<longrightarrow>
        (\<forall>rec \<in> set recs. category rec = first_match keyword_table (action rec)
                          \<and> category rec \<in> set category_values)"
    by (intro allI impI ballI conjI get_recommendations_categories)
  with categorize_first_match [of r] categorize_values [of r] show ?thesis
    by (intro conjI)
qed

theorem category_is_first_keyword_match_witness:
  "first_match keyword_table ''Schedule product update call'' = ''Personal Outreach''
   \<and> first_match keyword_table ''Technical expert consultation'' = ''Support Enhancement''
   \<and> get_recommendations at_risk_profile = Inr at_risk_recommendations
   \<and> list_all (\<lambda>rec. category rec \<in> set category_values) at_risk_recommendations"
proof -
  from category_is_first_keyword_match [of "''Schedule product update call''"]
  have 1: "first_match keyword_table ''Schedule product update call'' = ''Personal Outreach''"
    by (simp only: example_categories)
  from category_is_first_keyword_match [of "''Technical expert consultation''"]
  have 2: "first_match keyword_table ''Technical expert consultation'' = ''Support Enhancement''"
    by (simp only: example_categories)
  note t = category_is_first_keyword_match [of "[]" at_risk_profile, THEN conjunct2,
      THEN conjunct2, THEN spec, THEN mp, OF at_risk_get_recommendations]
  have 3: "list_all (\<lambda>rec. category rec \<in> set category_values) at_risk_recommendations"
    unfolding list_all_iff
  proof
    fix rec
    assume r: "rec \<in> set at_risk_recommendations"
    from bspec [OF t r] show "category rec \<in> set category_values"
      by (rule conjunct2)
  qed
  from 1 2 3 at_risk_get_recommendations show ?thesis
    by (simp only: simp_thms)
qed

end
